theory Spec2Isabelle
  imports Main
begin

section \<open>The escrow ledger contract (contracts/Escrow.sol)\<close>

subsection \<open>Data model\<close>

text \<open>
  An \<open>address\<close> is a 160-bit number; \<open>0\<close> is \<open>address(0)\<close>, which the contract uses
  both as "unset" and as the sentinel of the native asset. A \<open>uint256\<close> is a natural
  number; Solidity 0.8 reverts with a panic where an operation would leave the range, and
  every such check is written out below (\<open>UINT256_MAX\<close>).
\<close>

type_synonym address = nat

definition UINT256_MAX :: nat where
  "UINT256_MAX = 2 ^ 256 - 1"

definition MAX_FEE :: nat where
  "MAX_FEE = 1000"

definition FEE_DENOMINATOR :: nat where
  "FEE_DENOMINATOR = 10000"

datatype EscrowStatus = CREATED | FUNDED | DISPUTED | RELEASED | REFUNDED | CANCELLED

record EscrowData =
  client :: address
  provider :: address
  arbitrator :: address
  token :: address
  amount :: nat
  fee :: nat
  status :: EscrowStatus
  createdAt :: nat
  deadline :: nat
  description :: string

datatype event =
    EscrowCreated nat address address address nat nat
  | EscrowFunded nat address nat
  | EscrowReleased nat address nat nat
  | EscrowRefunded nat address nat
  | DisputeOpened nat address nat
  | DisputeResolved nat address bool
  | EscrowCancelled nat address
  | ArbitratorAdded address
  | ArbitratorRemoved address
  | FeeCollectorUpdated address
  | DefaultFeeUpdated nat

text \<open>One constructor for each revert reason of the contract and of the code it inherits.\<close>

datatype error =
    NotTheClient
  | NotAnAuthorizedArbitrator
  | EscrowDoesNotExist
  | InvalidEscrowStatus
  | InvalidProviderAddress
  | ClientAndProviderMustBeDifferent
  | AmountMustBeGreaterThan0
  | DeadlineMustBeInTheFuture
  | IncorrectETHAmount
  | ETHNotAcceptedForTokenEscrow
  | NotAuthorizedToRelease
  | TransferToProviderFailed
  | FeeTransferFailed
  | InvalidStatusForRefund
  | RefundTransferFailed
  | OnlyClientOrProviderCanOpenDispute
  | InvalidArbitratorAddress
  | InvalidFeeCollector
  | FeeExceedsMaximum
  | EmergencyWithdrawFailed
  | OwnableUnauthorizedAccount
  | ReentrancyGuardReentrantCall
  | SafeERC20FailedOperation
  | ArithmeticPanic
  | CallerCannotPayValue

text \<open>
  The world a call runs in: the contract's storage (\<open>escrowIdCounter\<close> \dots
  \<open>collectedFees\<close>), the owner and the reentrancy flag it inherits, its own address
  \<open>self\<close>, and the holdings of every account in every asset (\<open>balances asset holder\<close>;
  asset \<open>0\<close> is the native currency) with the token allowances
  (\<open>allowances asset holder spender\<close>).
\<close>

record world =
  escrowIdCounter :: nat
  escrows :: "nat \<Rightarrow> EscrowData"
  authorizedArbitrators :: "address \<Rightarrow> bool"
  defaultFee :: nat
  feeCollector :: address
  collectedFees :: "address \<Rightarrow> nat"
  owner :: address
  guardEntered :: bool
  self :: address
  balances :: "address \<Rightarrow> address \<Rightarrow> nat"
  allowances :: "address \<Rightarrow> address \<Rightarrow> address \<Rightarrow> nat"

text \<open>
  A call reverts (\<open>Inl\<close>, and the world stays as it was before the call) or returns the
  events it emitted and the world it leaves.
\<close>

type_synonym outcome = "error + event list \<times> world"

definition world_after :: "world \<Rightarrow> outcome \<Rightarrow> world" where
  "world_after s r = (case r of Inl e \<Rightarrow> s | Inr (evs, s') \<Rightarrow> s')"

subsection \<open>Value movement and external code\<close>

text \<open>
  Modelled from the spec: the asset's transfer primitives (the native value transfer of
  the execution environment, and \<open>IERC20\<close> with \<open>SafeERC20\<close>, which are not part of the
  sources). An asset is a ledger of holdings: a transfer fails when the payer holds less
  than the value (or, for a pull, has allowed less), and otherwise moves exactly the value.
  After the move the callee's code runs: the recipient's for a native transfer, the
  token's for a token transfer. That code is the parameter \<open>ext asset callee value\<close>: it
  sees the world as it is at that moment, may call back into the contract, and either
  fails (\<open>None\<close>, which undoes the move) or returns the world it leaves. Whatever
  reason a failing token transfer gives, the contract reverts; the model reports it as
  \<open>SafeERC20FailedOperation\<close>.
\<close>

type_synonym external = "address \<Rightarrow> address \<Rightarrow> nat \<Rightarrow> world \<Rightarrow> world option"

definition moveFunds ::
  "(address \<Rightarrow> address \<Rightarrow> nat) \<Rightarrow> address \<Rightarrow> address \<Rightarrow> address \<Rightarrow> nat
    \<Rightarrow> (address \<Rightarrow> address \<Rightarrow> nat)" where
  "moveFunds b asset payer payee v =
     (let debited = (b asset)(payer := b asset payer - v)
      in b(asset := debited(payee := debited payee + v)))"

definition transferOut :: "external \<Rightarrow> world \<Rightarrow> address \<Rightarrow> address \<Rightarrow> nat \<Rightarrow> world option" where
  "transferOut ext s asset payee v =
     (if balances s asset (self s) < v then None
      else ext asset payee v (s\<lparr>balances := moveFunds (balances s) asset (self s) payee v\<rparr>))"

definition safeTransferFrom ::
  "external \<Rightarrow> world \<Rightarrow> address \<Rightarrow> address \<Rightarrow> address \<Rightarrow> nat \<Rightarrow> world option" where
  "safeTransferFrom ext s asset payer payee v =
     (if balances s asset payer < v \<or> allowances s asset payer (self s) < v then None
      else ext asset payee v
        (s\<lparr>balances := moveFunds (balances s) asset payer payee v,
           allowances := (allowances s)(asset := (allowances s asset)
             (payer := (allowances s asset payer)
               (self s := allowances s asset payer (self s) - v)))\<rparr>))"

text \<open>
  A payable call credits \<open>msg.value\<close> to the contract before its code runs; a caller that
  does not hold the value cannot make the call.
\<close>

definition receiveValue :: "world \<Rightarrow> address \<Rightarrow> nat \<Rightarrow> world option" where
  "receiveValue s msg_sender msg_value =
     (if balances s 0 msg_sender < msg_value then None
      else Some (s\<lparr>balances := moveFunds (balances s) 0 msg_sender (self s) msg_value\<rparr>))"

text \<open>
  External code that does nothing but accept or refuse: it never calls back and leaves
  the world as it finds it.
\<close>

definition plain :: "(address \<Rightarrow> address \<Rightarrow> nat \<Rightarrow> world \<Rightarrow> bool) \<Rightarrow> external" where
  "plain acc asset callee v s = (if acc asset callee v s then Some s else None)"

subsection \<open>Modifiers\<close>

definition onlyClient :: "world \<Rightarrow> address \<Rightarrow> nat \<Rightarrow> bool" where
  "onlyClient s msg_sender escrowId \<longleftrightarrow> client (escrows s escrowId) = msg_sender"

definition onlyArbitrator :: "world \<Rightarrow> address \<Rightarrow> nat \<Rightarrow> bool" where
  "onlyArbitrator s msg_sender escrowId \<longleftrightarrow>
     authorizedArbitrators s msg_sender \<or> arbitrator (escrows s escrowId) = msg_sender"

definition escrowExists :: "world \<Rightarrow> nat \<Rightarrow> bool" where
  "escrowExists s escrowId \<longleftrightarrow> client (escrows s escrowId) \<noteq> 0"

definition inStatus :: "world \<Rightarrow> nat \<Rightarrow> EscrowStatus \<Rightarrow> bool" where
  "inStatus s escrowId st \<longleftrightarrow> status (escrows s escrowId) = st"

text \<open>
  Modelled from the spec: the reentrancy guard (\<open>ReentrancyGuard\<close> is not part of the
  sources), a flag that is set while a guarded function runs, refuses a nested guarded
  call, and is cleared on return.
\<close>

definition nonReentrant :: "world \<Rightarrow> (world \<Rightarrow> outcome) \<Rightarrow> outcome" where
  "nonReentrant s body =
     (if guardEntered s then Inl ReentrancyGuardReentrantCall
      else case body (s\<lparr>guardEntered := True\<rparr>) of
             Inl e \<Rightarrow> Inl e
           | Inr (evs, s') \<Rightarrow> Inr (evs, s'\<lparr>guardEntered := False\<rparr>))"

definition setStatus :: "world \<Rightarrow> nat \<Rightarrow> EscrowStatus \<Rightarrow> world" where
  "setStatus s escrowId st =
     s\<lparr>escrows := (escrows s)(escrowId := (escrows s escrowId)\<lparr>status := st\<rparr>)\<rparr>"

subsection \<open>Main functions\<close>

definition createEscrow ::
  "world \<Rightarrow> address \<Rightarrow> nat \<Rightarrow> address \<Rightarrow> address \<Rightarrow> address \<Rightarrow> nat \<Rightarrow> nat \<Rightarrow> string
    \<Rightarrow> error + nat \<times> event list \<times> world" where
  "createEscrow s msg_sender block_timestamp prov arb tok amt dl descr =
     (if prov = 0 then Inl InvalidProviderAddress
      else if prov = msg_sender then Inl ClientAndProviderMustBeDifferent
      else if \<not> amt > 0 then Inl AmountMustBeGreaterThan0
      else if dl > 0 \<and> \<not> dl > block_timestamp then Inl DeadlineMustBeInTheFuture
      else if escrowIdCounter s + 1 > UINT256_MAX then Inl ArithmeticPanic
      else
        let escrowId = escrowIdCounter s;
            s1 = s\<lparr>escrowIdCounter := escrowIdCounter s + 1\<rparr>;
            s2 = s1\<lparr>escrows := (escrows s1)(escrowId :=
                   \<lparr>client = msg_sender, provider = prov, arbitrator = arb, token = tok,
                    amount = amt, fee = defaultFee s1, status = CREATED,
                    createdAt = block_timestamp, deadline = dl, description = descr\<rparr>)\<rparr>
        in Inr (escrowId, [EscrowCreated escrowId msg_sender prov tok amt dl], s2))"

definition fundEscrow :: "external \<Rightarrow> world \<Rightarrow> address \<Rightarrow> nat \<Rightarrow> nat \<Rightarrow> outcome" where
  "fundEscrow ext s0 msg_sender msg_value escrowId =
     (case receiveValue s0 msg_sender msg_value of
        None \<Rightarrow> Inl CallerCannotPayValue
      | Some sv \<Rightarrow>
          nonReentrant sv (\<lambda>s.
            if \<not> escrowExists s escrowId then Inl EscrowDoesNotExist
            else if \<not> inStatus s escrowId CREATED then Inl InvalidEscrowStatus
            else if \<not> onlyClient s msg_sender escrowId then Inl NotTheClient
            else
              if token (escrows s escrowId) = 0 then
                (if msg_value \<noteq> amount (escrows s escrowId) then Inl IncorrectETHAmount
                 else
                   let s2 = setStatus s escrowId FUNDED
                   in Inr ([EscrowFunded escrowId msg_sender (amount (escrows s2 escrowId))], s2))
              else
                (if msg_value \<noteq> 0 then Inl ETHNotAcceptedForTokenEscrow
                 else
                   case safeTransferFrom ext s (token (escrows s escrowId)) msg_sender (self s)
                          (amount (escrows s escrowId)) of
                     None \<Rightarrow> Inl SafeERC20FailedOperation
                   | Some s1 \<Rightarrow>
                       let s2 = setStatus s1 escrowId FUNDED
                       in Inr ([EscrowFunded escrowId msg_sender (amount (escrows s2 escrowId))], s2))))"

text \<open>
  \<open>releaseToProvider\<close>. The record is a storage reference, so each read of one of its
  fields after an external call reads the world that call left.
\<close>

definition releaseToProvider :: "external \<Rightarrow> world \<Rightarrow> address \<Rightarrow> nat \<Rightarrow> outcome" where
  "releaseToProvider ext s0 msg_sender escrowId =
     nonReentrant s0 (\<lambda>s.
       if \<not> escrowExists s escrowId then Inl EscrowDoesNotExist
       else if \<not> inStatus s escrowId FUNDED then Inl InvalidEscrowStatus
       else if \<not> (msg_sender = client (escrows s escrowId) \<or>
                  msg_sender = arbitrator (escrows s escrowId) \<or>
                  authorizedArbitrators s msg_sender) then Inl NotAuthorizedToRelease
       else
         let s1 = setStatus s escrowId RELEASED in
         if amount (escrows s1 escrowId) * fee (escrows s1 escrowId) > UINT256_MAX
         then Inl ArithmeticPanic
         else
           let feeAmount = (amount (escrows s1 escrowId) * fee (escrows s1 escrowId))
                             div FEE_DENOMINATOR in
           if amount (escrows s1 escrowId) < feeAmount then Inl ArithmeticPanic
           else
             let providerAmount = amount (escrows s1 escrowId) - feeAmount in
             if token (escrows s1 escrowId) = 0 then
               (case transferOut ext s1 0 (provider (escrows s1 escrowId)) providerAmount of
                  None \<Rightarrow> Inl TransferToProviderFailed
                | Some s2 \<Rightarrow>
                    if feeAmount > 0 then
                      (case transferOut ext s2 0 (feeCollector s2) feeAmount of
                         None \<Rightarrow> Inl FeeTransferFailed
                       | Some s3 \<Rightarrow>
                           if collectedFees s3 0 + feeAmount > UINT256_MAX
                           then Inl ArithmeticPanic
                           else
                             let s4 = s3\<lparr>collectedFees :=
                                        (collectedFees s3)(0 := collectedFees s3 0 + feeAmount)\<rparr>
                             in Inr ([EscrowReleased escrowId (provider (escrows s4 escrowId))
                                        providerAmount feeAmount], s4))
                    else Inr ([EscrowReleased escrowId (provider (escrows s2 escrowId))
                                 providerAmount feeAmount], s2))
             else
               (case transferOut ext s1 (token (escrows s1 escrowId))
                       (provider (escrows s1 escrowId)) providerAmount of
                  None \<Rightarrow> Inl SafeERC20FailedOperation
                | Some s2 \<Rightarrow>
                    if feeAmount > 0 then
                      (case transferOut ext s2 (token (escrows s2 escrowId)) (feeCollector s2)
                              feeAmount of
                         None \<Rightarrow> Inl SafeERC20FailedOperation
                       | Some s3 \<Rightarrow>
                           if collectedFees s3 (token (escrows s3 escrowId)) + feeAmount
                                > UINT256_MAX
                           then Inl ArithmeticPanic
                           else
                             let s4 = s3\<lparr>collectedFees :=
                                        (collectedFees s3)(token (escrows s3 escrowId) :=
                                          collectedFees s3 (token (escrows s3 escrowId))
                                            + feeAmount)\<rparr>
                             in Inr ([EscrowReleased escrowId (provider (escrows s4 escrowId))
                                        providerAmount feeAmount], s4))
                    else Inr ([EscrowReleased escrowId (provider (escrows s2 escrowId))
                                 providerAmount feeAmount], s2)))"

definition refundToClient :: "external \<Rightarrow> world \<Rightarrow> address \<Rightarrow> nat \<Rightarrow> outcome" where
  "refundToClient ext s0 msg_sender escrowId =
     nonReentrant s0 (\<lambda>s.
       if \<not> escrowExists s escrowId then Inl EscrowDoesNotExist
       else if \<not> onlyArbitrator s msg_sender escrowId then Inl NotAnAuthorizedArbitrator
       else if \<not> (status (escrows s escrowId) = FUNDED \<or>
                  status (escrows s escrowId) = DISPUTED) then Inl InvalidStatusForRefund
       else
         let s1 = setStatus s escrowId REFUNDED in
         if token (escrows s1 escrowId) = 0 then
           (case transferOut ext s1 0 (client (escrows s1 escrowId))
                   (amount (escrows s1 escrowId)) of
              None \<Rightarrow> Inl RefundTransferFailed
            | Some s2 \<Rightarrow>
                Inr ([EscrowRefunded escrowId (client (escrows s2 escrowId))
                        (amount (escrows s2 escrowId))], s2))
         else
           (case transferOut ext s1 (token (escrows s1 escrowId)) (client (escrows s1 escrowId))
                   (amount (escrows s1 escrowId)) of
              None \<Rightarrow> Inl SafeERC20FailedOperation
            | Some s2 \<Rightarrow>
                Inr ([EscrowRefunded escrowId (client (escrows s2 escrowId))
                        (amount (escrows s2 escrowId))], s2)))"


text \<open>
  \<open>resolveDispute\<close>. As written, \<open>Escrow.sol\<close> is refused by the compiler:
  \<open>resolveDispute\<close> calls \<open>refundToClient(escrowId)\<close> and \<open>releaseToProvider(escrowId)\<close>
  by their bare names, and both are declared \<open>external\<close>, which admits calls from outside
  only. The model reads the two functions as \<open>public\<close>. This is a repair of the source,
  the smallest one under which the contract compiles and under which the repository's
  own tests of \<open>resolveDispute\<close> can run: the two siblings are called in place, the caller
  stays \<open>msg.sender\<close>, their modifiers run again, and a revert inside reverts the whole
  call. Everything below that concerns \<open>resolveDispute\<close> is about the contract so
  repaired; the other functions are as written.
\<close>

definition resolveDispute :: "external \<Rightarrow> world \<Rightarrow> address \<Rightarrow> nat \<Rightarrow> bool \<Rightarrow> outcome" where
  "resolveDispute ext s msg_sender escrowId inFavorOfClient =
     (if \<not> escrowExists s escrowId then Inl EscrowDoesNotExist
      else if \<not> inStatus s escrowId DISPUTED then Inl InvalidEscrowStatus
      else if \<not> onlyArbitrator s msg_sender escrowId then Inl NotAnAuthorizedArbitrator
      else
        if inFavorOfClient then
          (case refundToClient ext s msg_sender escrowId of
             Inl e \<Rightarrow> Inl e
           | Inr (evs, s') \<Rightarrow>
               Inr (DisputeResolved escrowId msg_sender inFavorOfClient # evs, s'))
        else
          (case releaseToProvider ext (setStatus s escrowId FUNDED) msg_sender escrowId of
             Inl e \<Rightarrow> Inl e
           | Inr (evs, s') \<Rightarrow>
               Inr (DisputeResolved escrowId msg_sender inFavorOfClient # evs, s')))"


subsection \<open>Admin functions\<close>

definition addArbitrator :: "world \<Rightarrow> address \<Rightarrow> address \<Rightarrow> outcome" where
  "addArbitrator s msg_sender arb =
     (if owner s \<noteq> msg_sender then Inl OwnableUnauthorizedAccount
      else if arb = 0 then Inl InvalidArbitratorAddress
      else Inr ([ArbitratorAdded arb],
                s\<lparr>authorizedArbitrators := (authorizedArbitrators s)(arb := True)\<rparr>))"

definition removeArbitrator :: "world \<Rightarrow> address \<Rightarrow> address \<Rightarrow> outcome" where
  "removeArbitrator s msg_sender arb =
     (if owner s \<noteq> msg_sender then Inl OwnableUnauthorizedAccount
      else Inr ([ArbitratorRemoved arb],
                s\<lparr>authorizedArbitrators := (authorizedArbitrators s)(arb := False)\<rparr>))"

definition setFeeCollector :: "world \<Rightarrow> address \<Rightarrow> address \<Rightarrow> outcome" where
  "setFeeCollector s msg_sender newFeeCollector =
     (if owner s \<noteq> msg_sender then Inl OwnableUnauthorizedAccount
      else if newFeeCollector = 0 then Inl InvalidFeeCollector
      else Inr ([FeeCollectorUpdated newFeeCollector], s\<lparr>feeCollector := newFeeCollector\<rparr>))"

definition setDefaultFee :: "world \<Rightarrow> address \<Rightarrow> nat \<Rightarrow> outcome" where
  "setDefaultFee s msg_sender newFee =
     (if owner s \<noteq> msg_sender then Inl OwnableUnauthorizedAccount
      else if \<not> newFee \<le> MAX_FEE then Inl FeeExceedsMaximum
      else Inr ([DefaultFeeUpdated newFee], s\<lparr>defaultFee := newFee\<rparr>))"

subsection \<open>Emergency functions\<close>

definition emergencyWithdraw :: "external \<Rightarrow> world \<Rightarrow> address \<Rightarrow> address \<Rightarrow> nat \<Rightarrow> outcome" where
  "emergencyWithdraw ext s msg_sender tok amt =
     (if owner s \<noteq> msg_sender then Inl OwnableUnauthorizedAccount
      else if tok = 0 then
        (case transferOut ext s 0 (owner s) amt of
           None \<Rightarrow> Inl EmergencyWithdrawFailed
         | Some s1 \<Rightarrow> Inr ([], s1))
      else
        (case transferOut ext s tok (owner s) amt of
           None \<Rightarrow> Inl SafeERC20FailedOperation
         | Some s1 \<Rightarrow> Inr ([], s1)))"


subsection \<open>View functions\<close>

definition getEscrow :: "world \<Rightarrow> nat \<Rightarrow> error + EscrowData" where
  "getEscrow s escrowId =
     (if \<not> escrowExists s escrowId then Inl EscrowDoesNotExist else Inr (escrows s escrowId))"

definition getEscrowCount :: "world \<Rightarrow> nat" where
  "getEscrowCount s = escrowIdCounter s"

definition isArbitrator :: "world \<Rightarrow> address \<Rightarrow> bool" where
  "isArbitrator s arb = authorizedArbitrators s arb"

section \<open>The event indexer (backend: blockchain.service.ts, event-listener.service.ts)\<close>

subsection \<open>The chain as the indexer reads it\<close>

text \<open>
  An \<open>EventLog\<close> is one decoded log of the contract: the block it is in, the hash of its
  transaction and the event with its arguments. A chain the service is connected to has a
  current block number, the logs of the contract in chain order, and the contract's
  current state (what a view call reads). Chain ids, block numbers and escrow ids are the
  small naturals that the chain and the contract's counter produce, so \<open>Number(...)\<close> of
  one of them is the number itself.
\<close>

record EventLog =
  blockNumber :: nat
  transactionHash :: string
  args :: event

record chain =
  currentBlockNumber :: nat
  logs :: "EventLog list"
  contractState :: world

record blockchainService =
  supportedChainIds :: "nat list"
  chains :: "nat \<rightharpoonup> chain"

datatype indexer_error =
    ProviderNotFound nat
  | ContractNotFound nat
  | CallReverted error
  | UniqueViolation
  | QueryFailed
  | TypeError

definition getBlockNumber :: "blockchainService \<Rightarrow> nat \<Rightarrow> indexer_error + nat" where
  "getBlockNumber bs chainId_arg =
     (case chains bs chainId_arg of
        None \<Rightarrow> Inl (ProviderNotFound chainId_arg)
      | Some c \<Rightarrow> Inr (currentBlockNumber c))"

definition getContract :: "blockchainService \<Rightarrow> nat \<Rightarrow> indexer_error + chain" where
  "getContract bs chainId_arg =
     (case chains bs chainId_arg of
        None \<Rightarrow> Inl (ContractNotFound chainId_arg)
      | Some c \<Rightarrow> Inr c)"

definition blockchain_getEscrow ::
  "blockchainService \<Rightarrow> nat \<Rightarrow> nat \<Rightarrow> indexer_error + EscrowData" where
  "blockchain_getEscrow bs chainId_arg escrowId_arg =
     (case getContract bs chainId_arg of
        Inl e \<Rightarrow> Inl e
      | Inr c \<Rightarrow>
          (case getEscrow (contractState c) escrowId_arg of
             Inl e \<Rightarrow> Inl (CallReverted e)
           | Inr escrowData \<Rightarrow> Inr escrowData))"

fun isEscrowCreated :: "event \<Rightarrow> bool" where
  "isEscrowCreated (EscrowCreated i c p t a d) = True"
| "isEscrowCreated e = False"

fun isEscrowFunded :: "event \<Rightarrow> bool" where
  "isEscrowFunded (EscrowFunded i f a) = True"
| "isEscrowFunded e = False"

text \<open>
  Modelled from the spec: \<open>contract.queryFilter(filter, fromBlock, toBlock)\<close> of the
  chain library, which returns the logs the filter selects in the blocks
  \<open>fromBlock \<dots> toBlock\<close>, both ends included, in chain order.
\<close>

definition queryFilter :: "chain \<Rightarrow> (event \<Rightarrow> bool) \<Rightarrow> nat \<Rightarrow> nat \<Rightarrow> EventLog list" where
  "queryFilter c selects fromBlock toBlock =
     filter (\<lambda>l. selects (args l) \<and> fromBlock \<le> blockNumber l \<and> blockNumber l \<le> toBlock)
       (logs c)"

subsection \<open>The replica store\<close>

text \<open>
  A date of the listener's language holds a number of milliseconds of at most
  \<open>8640000000000000\<close> in size; \<open>new Date(ms)\<close> of a larger number is the invalid date.
\<close>

datatype jsDate = ValidDate nat | InvalidDate

definition newDate :: "nat \<Rightarrow> jsDate" where
  "newDate ms = (if ms \<le> 8640000000000000 then ValidDate ms else InvalidDate)"

text \<open>
  A row of the \<open>escrows\<close> table (entity \<open>Escrow\<close>); the columns carry the suffix \<open>_col\<close>.
  The pair \<open>(chainId, escrowId)\<close> has a unique index. The two timestamp columns that the
  database fills by itself are left out.
\<close>

record Escrow =
  id_col :: nat
  chainId_col :: nat
  escrowId_col :: nat
  client_col :: string
  provider_col :: string
  arbitrator_col :: string
  token_col :: string
  amount_col :: string
  fee_col :: string
  status_col :: nat
  deadline_col :: "jsDate option"
  description_col :: string
  transactionHash_col :: string
  blockNumber_col :: nat

definition findOne :: "Escrow list \<Rightarrow> nat \<Rightarrow> nat \<Rightarrow> Escrow option" where
  "findOne rows chainId_arg escrowId_arg =
     find (\<lambda>r. chainId_col r = chainId_arg \<and> escrowId_col r = escrowId_arg) rows"

text \<open>
  What the database takes as a row: a \<open>timestamp\<close> column takes no invalid date, and a
  \<open>text\<close> column takes no string with the character of code \<open>0\<close> in it.
\<close>

definition storable :: "Escrow \<Rightarrow> bool" where
  "storable e \<longleftrightarrow> deadline_col e \<noteq> Some InvalidDate \<and> CHR 0x00 \<notin> set (description_col e)"

text \<open>
  \<open>save\<close> of a new entity throws when the database does not take the row; otherwise it
  inserts the row under a fresh primary key, unless the unique index refuses it. \<open>save\<close>
  of a loaded entity writes it back under its primary key.
\<close>

definition freshId :: "Escrow list \<Rightarrow> nat" where
  "freshId rows = Suc (fold max (map id_col rows) 0)"

definition saveNew :: "Escrow list \<Rightarrow> Escrow \<Rightarrow> indexer_error + Escrow list" where
  "saveNew rows e =
     (if \<not> storable e then Inl QueryFailed
      else case findOne rows (chainId_col e) (escrowId_col e) of
             Some r \<Rightarrow> Inl UniqueViolation
           | None \<Rightarrow> Inr (rows @ [e\<lparr>id_col := freshId rows\<rparr>]))"

definition saveLoaded :: "Escrow list \<Rightarrow> Escrow \<Rightarrow> Escrow list" where
  "saveLoaded rows e = map (\<lambda>r. if id_col r = id_col e then e else r) rows"

subsection \<open>Rendering of values into columns\<close>

text \<open>
  The chain library hands an address over as a hexadecimal string in checksum case;
  \<open>toLowerCase()\<close> of it is \<open>0x\<close> and the forty lower-case digits of the address.
  \<open>toString()\<close> of an unsigned integer is its decimal numeral. A deadline that is not
  \<open>0\<close> becomes \<open>new Date(Number(deadline) * 1000)\<close>: the product is exact wherever the
  date is valid, and beyond \<open>8640000000000\<close> seconds the date is the invalid one.
\<close>

definition hexDigit :: "nat \<Rightarrow> char" where
  "hexDigit d = ''0123456789abcdef'' ! (d mod 16)"

fun hexDigits :: "nat \<Rightarrow> nat \<Rightarrow> string" where
  "hexDigits 0 a = []"
| "hexDigits (Suc n) a = hexDigits n (a div 16) @ [hexDigit a]"

definition toLowerCase :: "address \<Rightarrow> string" where
  "toLowerCase a = ''0x'' @ hexDigits 40 a"

fun toString :: "nat \<Rightarrow> string" where
  "toString n =
     (if n < 10 then [''0123456789'' ! n]
      else toString (n div 10) @ [''0123456789'' ! (n mod 10)])"

declare toString.simps [simp del]

fun statusNumber :: "EscrowStatus \<Rightarrow> nat" where
  "statusNumber CREATED = 0"
| "statusNumber FUNDED = 1"
| "statusNumber DISPUTED = 2"
| "statusNumber RELEASED = 3"
| "statusNumber REFUNDED = 4"
| "statusNumber CANCELLED = 5"

subsection \<open>The event listener\<close>

record eventListener =
  lastSyncedBlocks :: "nat \<rightharpoonup> nat"
  escrowRepository :: "Escrow list"

text \<open>
  A handler throws (\<open>Inl\<close>, and then it has written nothing) or returns the listener it
  leaves. The filters hand each handler only logs of its own event.
\<close>

definition handleEscrowCreated ::
  "blockchainService \<Rightarrow> nat \<Rightarrow> eventListener \<Rightarrow> EventLog \<Rightarrow> indexer_error + eventListener" where
  "handleEscrowCreated bs chainId_arg st event_arg =
     (case args event_arg of
        EscrowCreated escrowId_ev client_ev provider_ev token_ev amount_ev deadline_ev \<Rightarrow>
          (case findOne (escrowRepository st) chainId_arg escrowId_ev of
             Some existing \<Rightarrow> Inr st
           | None \<Rightarrow>
               (case blockchain_getEscrow bs chainId_arg escrowId_ev of
                  Inl e \<Rightarrow> Inl e
                | Inr escrowData \<Rightarrow>
                    (case saveNew (escrowRepository st)
                            \<lparr>id_col = 0,
                             chainId_col = chainId_arg,
                             escrowId_col = escrowId_ev,
                             client_col = toLowerCase client_ev,
                             provider_col = toLowerCase provider_ev,
                             arbitrator_col = toLowerCase (arbitrator escrowData),
                             token_col = toLowerCase token_ev,
                             amount_col = toString amount_ev,
                             fee_col = toString (fee escrowData),
                             status_col = statusNumber (status escrowData),
                             deadline_col =
                               (if deadline_ev > 0 then Some (newDate (deadline_ev * 1000))
                                else None),
                             description_col = description escrowData,
                             transactionHash_col = transactionHash event_arg,
                             blockNumber_col = blockNumber event_arg\<rparr> of
                       Inl e \<Rightarrow> Inl e
                     | Inr rows \<Rightarrow> Inr (st\<lparr>escrowRepository := rows\<rparr>))))
      | _ \<Rightarrow> Inl TypeError)"

definition handleEscrowFunded ::
  "nat \<Rightarrow> eventListener \<Rightarrow> EventLog \<Rightarrow> indexer_error + eventListener" where
  "handleEscrowFunded chainId_arg st event_arg =
     (case args event_arg of
        EscrowFunded escrowId_ev funder_ev amount_ev \<Rightarrow>
          (case findOne (escrowRepository st) chainId_arg escrowId_ev of
             Some escrow \<Rightarrow>
               Inr (st\<lparr>escrowRepository :=
                      saveLoaded (escrowRepository st) (escrow\<lparr>status_col := 1\<rparr>)\<rparr>)
           | None \<Rightarrow> Inr st)
      | _ \<Rightarrow> Inl TypeError)"

text \<open>
  A \<open>for\<close> loop over events that awaits a handler for each: the first handler that throws
  ends the loop, and what the earlier ones wrote stays written.
\<close>

fun forEach ::
  "(eventListener \<Rightarrow> EventLog \<Rightarrow> indexer_error + eventListener) \<Rightarrow> EventLog list
    \<Rightarrow> eventListener \<Rightarrow> eventListener \<times> indexer_error option" where
  "forEach handler [] st = (st, None)"
| "forEach handler (event_arg # events) st =
     (case handler st event_arg of
        Inl e \<Rightarrow> (st, Some e)
      | Inr st' \<Rightarrow> forEach handler events st')"

definition syncChainEvents ::
  "blockchainService \<Rightarrow> eventListener \<Rightarrow> nat \<Rightarrow> eventListener \<times> indexer_error option" where
  "syncChainEvents bs st chainId_arg =
     (case getContract bs chainId_arg of
        Inl e \<Rightarrow> (st, Some e)
      | Inr contract \<Rightarrow>
          (case getBlockNumber bs chainId_arg of
             Inl e \<Rightarrow> (st, Some e)
           | Inr currentBlock \<Rightarrow>
               (let fromBlock = (case lastSyncedBlocks st chainId_arg of
                                   Some b \<Rightarrow> b | None \<Rightarrow> 0)
                in if fromBlock \<ge> currentBlock then (st, None)
                   else
                     (let createdEvents =
                            queryFilter contract isEscrowCreated fromBlock currentBlock
                      in (case forEach (handleEscrowCreated bs chainId_arg) createdEvents st of
                            (st1, Some e) \<Rightarrow> (st1, Some e)
                          | (st1, None) \<Rightarrow>
                              (let fundedEvents =
                                     queryFilter contract isEscrowFunded fromBlock currentBlock
                               in (case forEach (handleEscrowFunded chainId_arg)
                                          fundedEvents st1 of
                                     (st2, Some e) \<Rightarrow> (st2, Some e)
                                   | (st2, None) \<Rightarrow>
                                       (st2\<lparr>lastSyncedBlocks :=
                                          (lastSyncedBlocks st2)(chainId_arg \<mapsto> currentBlock)\<rparr>,
                                        None))))))))"

text \<open>
  The timer's pass over every connected chain; an error of one chain is logged and
  dropped, and what the cycle had written before it stays.
\<close>

fun syncEach :: "blockchainService \<Rightarrow> nat list \<Rightarrow> eventListener \<Rightarrow> eventListener" where
  "syncEach bs [] st = st"
| "syncEach bs (chainId_arg # chainIds) st =
     syncEach bs chainIds (fst (syncChainEvents bs st chainId_arg))"

definition syncBlockchainEvents :: "blockchainService \<Rightarrow> eventListener \<Rightarrow> eventListener" where
  "syncBlockchainEvents bs st = syncEach bs (supportedChainIds bs) st"

text \<open>At start the cursor of every connected chain is the configured start block.\<close>

definition onModuleInit :: "blockchainService \<Rightarrow> nat \<Rightarrow> eventListener \<Rightarrow> eventListener" where
  "onModuleInit bs startBlock st =
     syncBlockchainEvents bs
       (st\<lparr>lastSyncedBlocks :=
            fold (\<lambda>chainId_arg m. m(chainId_arg \<mapsto> startBlock)) (supportedChainIds bs)
              (lastSyncedBlocks st)\<rparr>)"

section \<open>Example worlds and observers\<close>

text \<open>
  The scenario of the specification: record \<open>0\<close> between client \<open>1\<close> and provider \<open>2\<close>, no
  arbitrator of its own, in the native asset, amount \<open>1000000\<close>, fee rate \<open>250\<close>. Account
  \<open>3\<close> is an authorized arbitrator, \<open>4\<close> collects the fees, \<open>5\<close> owns the contract, and
  the contract is account \<open>9\<close>, holding the amount.
\<close>

definition acceptAll :: external where
  "acceptAll = plain (\<lambda>asset callee v s. True)"

definition example_world :: "EscrowStatus \<Rightarrow> world" where
  "example_world st =
     \<lparr>escrowIdCounter = 1,
      escrows = (\<lambda>i. \<lparr>client = 0, provider = 0, arbitrator = 0, token = 0, amount = 0,
                       fee = 0, status = CREATED, createdAt = 0, deadline = 0,
                       description = []\<rparr>)
        (0 := \<lparr>client = 1, provider = 2, arbitrator = 0, token = 0, amount = 1000000,
               fee = 250, status = st, createdAt = 0, deadline = 0, description = ''x''\<rparr>),
      authorizedArbitrators = (\<lambda>a. False)(3 := True),
      defaultFee = 250, feeCollector = 4, collectedFees = (\<lambda>a. 0), owner = 5,
      guardEntered = False, self = 9,
      balances = (\<lambda>asset holder. 0)(0 := (\<lambda>holder. 0)(1 := 5000000, 9 := 1000000)),
      allowances = (\<lambda>asset holder spender. 0)\<rparr>"

text \<open>
  The outside world in which every external call that starts while record \<open>escrowId\<close> is
  not RELEASED fails.
\<close>

definition whileReleased :: "nat \<Rightarrow> external \<Rightarrow> external" where
  "whileReleased escrowId ext asset callee v w =
     (if status (escrows w escrowId) = RELEASED then ext asset callee v w else None)"

text \<open>
  A recipient whose code, on being paid, calls \<open>releaseToProvider(0)\<close> again in its own
  name and carries on whether or not that call reverts; and a world in which this
  recipient may release record \<open>0\<close> (it is the record's provider and its arbitrator) and
  the contract holds enough for three payments.
\<close>

definition reentrantProvider :: external where
  "reentrantProvider asset callee v w =
     (case releaseToProvider acceptAll w callee 0 of
        Inl e \<Rightarrow> Some w
      | Inr (evs, w') \<Rightarrow> Some w')"

definition attacked_world :: world where
  "attacked_world =
     (example_world FUNDED)
       \<lparr>escrows := (escrows (example_world FUNDED))
          (0 := (escrows (example_world FUNDED) 0)\<lparr>arbitrator := 2\<rparr>),
        balances := (balances (example_world FUNDED))
          (0 := (balances (example_world FUNDED) 0)(9 := 3000000))\<rparr>"

text \<open>
  A chain (id \<open>1\<close>) on which record \<open>0\<close> of the example was created in block \<open>3\<close> and
  funded in block \<open>5\<close>, now at block \<open>6\<close>; a listener with an empty replica and a given cursor; and a replica
  row of record \<open>0\<close> in a given status.
\<close>

definition example_created :: EventLog where
  "example_created =
     \<lparr>blockNumber = 3, transactionHash = ''0xaa'', args = EscrowCreated 0 1 2 0 1000000 0\<rparr>"

definition example_funded :: EventLog where
  "example_funded =
     \<lparr>blockNumber = 5, transactionHash = ''0xbb'', args = EscrowFunded 0 1 1000000\<rparr>"

definition example_chain :: chain where
  "example_chain =
     \<lparr>currentBlockNumber = 6, logs = [example_created, example_funded],
      contractState = example_world FUNDED\<rparr>"

definition example_service :: blockchainService where
  "example_service = \<lparr>supportedChainIds = [1], chains = [1 \<mapsto> example_chain]\<rparr>"

definition example_listener :: "nat \<Rightarrow> eventListener" where
  "example_listener cursor = \<lparr>lastSyncedBlocks = [1 \<mapsto> cursor], escrowRepository = []\<rparr>"

definition example_row :: "nat \<Rightarrow> Escrow" where
  "example_row st =
     \<lparr>id_col = 1, chainId_col = 1, escrowId_col = 0,
      client_col = toLowerCase 1, provider_col = toLowerCase 2,
      arbitrator_col = toLowerCase 0, token_col = toLowerCase 0,
      amount_col = ''1000000'', fee_col = ''250'', status_col = st, deadline_col = None,
      description_col = ''x'', transactionHash_col = ''0xaa'', blockNumber_col = 3\<rparr>"

text \<open>
  The same contract after client \<open>1\<close> has created a second record, \<open>1\<close>, whose deadline
  lies one second beyond the last second that a date of the listener can hold; the
  creation event of that record; and a chain that carries it.
\<close>

definition far_world :: world where
  "far_world =
     (example_world CREATED)
       \<lparr>escrowIdCounter := 2,
        escrows := (escrows (example_world CREATED))
          (1 := \<lparr>client = 1, provider = 2, arbitrator = 0, token = 0, amount = 1000000,
                 fee = 250, status = CREATED, createdAt = 0, deadline = 8640000000001,
                 description = ''x''\<rparr>)\<rparr>"

definition far_created :: EventLog where
  "far_created =
     \<lparr>blockNumber = 3, transactionHash = ''0xcc'',
      args = EscrowCreated 1 1 2 0 1000000 8640000000001\<rparr>"

definition far_service :: blockchainService where
  "far_service =
     \<lparr>supportedChainIds = [1],
      chains = [1 \<mapsto> \<lparr>currentBlockNumber = 6, logs = [far_created],
                        contractState = far_world\<rparr>]\<rparr>"

section \<open>Properties of the contract\<close>

lemmas contract_defs =
  nonReentrant_def escrowExists_def inStatus_def onlyClient_def onlyArbitrator_def
  setStatus_def transferOut_def receiveValue_def

lemma moveFunds_zero: "moveFunds b asset payer payee 0 = b"
  by (simp add: moveFunds_def)

subsection \<open>Funding\<close>

text \<open>
  Claim C4. A record that exists, is CREATED and is in the native asset is funded by its
  client (in a call of its own, by a caller that holds the value it sends) exactly when
  the value sent equals the amount: then the call succeeds and the record is FUNDED, with
  the value in the contract's custody; with any other value, larger or smaller, the call
  reverts with "Incorrect ETH amount" and the record stays CREATED.
\<close>

theorem fundEscrow_native_exact_amount:
  assumes "\<not> guardEntered s"
    and "msg_value \<le> balances s 0 msg_sender"
    and "escrowExists s escrowId"
    and "status (escrows s escrowId) = CREATED"
    and "token (escrows s escrowId) = 0"
    and "client (escrows s escrowId) = msg_sender"
  shows "if msg_value = amount (escrows s escrowId)
         then \<exists>s'. fundEscrow ext s msg_sender msg_value escrowId
                      = Inr ([EscrowFunded escrowId msg_sender msg_value], s')
                \<and> status (escrows s' escrowId) = FUNDED
                \<and> amount (escrows s' escrowId) = amount (escrows s escrowId)
                \<and> balances s' = moveFunds (balances s) 0 msg_sender (self s) msg_value
         else fundEscrow ext s msg_sender msg_value escrowId = Inl IncorrectETHAmount
                \<and> status (escrows (world_after s
                     (fundEscrow ext s msg_sender msg_value escrowId)) escrowId) = CREATED"
  using assms
  by (simp add: fundEscrow_def contract_defs world_after_def)

theorem fundEscrow_native_exact_amount_witness:
  "(\<exists>s'. fundEscrow acceptAll (example_world CREATED) 1 1000000 0
            = Inr ([EscrowFunded 0 1 1000000], s')
        \<and> status (escrows s' 0) = FUNDED
        \<and> balances s' 0 9 = 2000000 \<and> balances s' 0 1 = 4000000)
   \<and> fundEscrow acceptAll (example_world CREATED) 1 999999 0 = Inl IncorrectETHAmount
   \<and> fundEscrow acceptAll (example_world CREATED) 1 1000001 0 = Inl IncorrectETHAmount"
  using fundEscrow_native_exact_amount [of "example_world CREATED" 1000000 1 0 acceptAll]
    fundEscrow_native_exact_amount [of "example_world CREATED" 999999 1 0 acceptAll]
    fundEscrow_native_exact_amount [of "example_world CREATED" 1000001 1 0 acceptAll]
  by (auto simp add: example_world_def escrowExists_def moveFunds_def)

subsection \<open>Release\<close>

text \<open>
  What a release that succeeds has done, when the recipients' code only accepts or
  refuses: the record was FUNDED, the call was not nested in a guarded one, the fee does
  not exceed the amount, the contract held what it paid, and the world it leaves differs
  from the one before in the record's status, the contract's fee counter and the two
  movements of funds.
\<close>

lemma release_plain_success:
  assumes "releaseToProvider (plain acc) s msg_sender escrowId = Inr (evs, s')"
  shows "status (escrows s escrowId) = FUNDED \<and> \<not> guardEntered s \<and>
    amount (escrows s escrowId) * fee (escrows s escrowId) div FEE_DENOMINATOR
      \<le> amount (escrows s escrowId) \<and>
    amount (escrows s escrowId)
        - amount (escrows s escrowId) * fee (escrows s escrowId) div FEE_DENOMINATOR
      \<le> balances s (token (escrows s escrowId)) (self s) \<and>
    amount (escrows s escrowId) * fee (escrows s escrowId) div FEE_DENOMINATOR
      \<le> moveFunds (balances s) (token (escrows s escrowId)) (self s)
            (provider (escrows s escrowId))
            (amount (escrows s escrowId)
               - amount (escrows s escrowId) * fee (escrows s escrowId) div FEE_DENOMINATOR)
            (token (escrows s escrowId)) (self s) \<and>
    evs = [EscrowReleased escrowId (provider (escrows s escrowId))
            (amount (escrows s escrowId)
               - amount (escrows s escrowId) * fee (escrows s escrowId) div FEE_DENOMINATOR)
            (amount (escrows s escrowId) * fee (escrows s escrowId) div FEE_DENOMINATOR)] \<and>
    s' = s\<lparr>escrows := (escrows s)(escrowId := (escrows s escrowId)\<lparr>status := RELEASED\<rparr>),
          collectedFees := (collectedFees s)(token (escrows s escrowId) :=
             collectedFees s (token (escrows s escrowId))
               + amount (escrows s escrowId) * fee (escrows s escrowId) div FEE_DENOMINATOR),
          balances := moveFunds
            (moveFunds (balances s) (token (escrows s escrowId)) (self s)
               (provider (escrows s escrowId))
               (amount (escrows s escrowId)
                  - amount (escrows s escrowId) * fee (escrows s escrowId) div FEE_DENOMINATOR))
            (token (escrows s escrowId)) (self s) (feeCollector s)
            (amount (escrows s escrowId) * fee (escrows s escrowId) div FEE_DENOMINATOR)\<rparr>"
  using assms
  unfolding releaseToProvider_def nonReentrant_def escrowExists_def inStatus_def setStatus_def
     transferOut_def plain_def Let_def
  by (auto split: if_splits option.splits sum.splits simp: moveFunds_zero)

text \<open>
  Claim C2. A release of a FUNDED record with amount \<open>A\<close> and fee rate \<open>F\<close> that succeeds
  pays the provider exactly \<open>A - A * F div 10000\<close> and the fee collector exactly
  \<open>A * F div 10000\<close>, and the two sum to \<open>A\<close>. The payments are the two movements out of
  the contract's holding of the record's asset; where provider, collector and contract
  are distinct accounts, the provider's and the collector's holdings grow by exactly
  these amounts and the contract's shrinks by \<open>A\<close>.
\<close>

theorem releaseToProvider_fee_split:
  assumes "status (escrows s escrowId) = FUNDED"
    and "releaseToProvider (plain acc) s msg_sender escrowId = Inr (evs, s')"
  shows "let A = amount (escrows s escrowId);
             F = fee (escrows s escrowId);
             feeAmount = A * F div 10000;
             providerAmount = A - feeAmount;
             asset = token (escrows s escrowId);
             prov = provider (escrows s escrowId);
             coll = feeCollector s
         in providerAmount + feeAmount = A
          \<and> evs = [EscrowReleased escrowId prov providerAmount feeAmount]
          \<and> status (escrows s' escrowId) = RELEASED
          \<and> balances s' = moveFunds (moveFunds (balances s) asset (self s) prov providerAmount)
                             asset (self s) coll feeAmount
          \<and> collectedFees s' asset = collectedFees s asset + feeAmount
          \<and> (prov \<noteq> self s \<and> prov \<noteq> coll \<longrightarrow>
                balances s' asset prov = balances s asset prov + providerAmount)
          \<and> (coll \<noteq> self s \<and> coll \<noteq> prov \<longrightarrow>
                balances s' asset coll = balances s asset coll + feeAmount)
          \<and> (self s \<noteq> prov \<and> self s \<noteq> coll \<longrightarrow>
                balances s' asset (self s) + A = balances s asset (self s))"
proof -
  define A where "A = amount (escrows s escrowId)"
  define fa where "fa = A * fee (escrows s escrowId) div 10000"
  define pa where "pa = A - fa"
  define asset where "asset = token (escrows s escrowId)"
  define prov where "prov = provider (escrows s escrowId)"
  define coll where "coll = feeCollector s"
  define b where "b = balances s"
  note r = release_plain_success [OF assms(2), unfolded FEE_DENOMINATOR_def,
      folded A_def, folded fa_def, folded pa_def, folded asset_def prov_def coll_def b_def]
  from r have le: "fa \<le> A" by simp
  from r have b1: "pa \<le> b asset (self s)" by simp
  from r have b2: "fa \<le> moveFunds b asset (self s) prov pa asset (self s)" by simp
  from r have ev: "evs = [EscrowReleased escrowId prov pa fa]" by simp
  from r have st: "status (escrows s' escrowId) = RELEASED" by simp
  from r have bal: "balances s' = moveFunds (moveFunds b asset (self s) prov pa)
      asset (self s) coll fa" by simp
  from r have cf: "collectedFees s' asset = collectedFees s asset + fa"
    by (simp add: asset_def)
  have sum: "pa + fa = A" using le by (simp add: pa_def)
  have d1: "prov \<noteq> self s \<and> prov \<noteq> coll \<longrightarrow> balances s' asset prov = b asset prov + pa"
    by (simp add: bal moveFunds_def)
  have d2: "coll \<noteq> self s \<and> coll \<noteq> prov \<longrightarrow> balances s' asset coll = b asset coll + fa"
    by (simp add: bal moveFunds_def)
  have d3: "self s \<noteq> prov \<and> self s \<noteq> coll \<longrightarrow> balances s' asset (self s) + A = b asset (self s)"
  proof (intro impI)
    assume ne: "self s \<noteq> prov \<and> self s \<noteq> coll"
    then have "fa \<le> b asset (self s) - pa" using b2 by (simp add: moveFunds_def)
    moreover have "balances s' asset (self s) = b asset (self s) - pa - fa"
      using ne by (simp add: bal moveFunds_def)
    ultimately show "balances s' asset (self s) + A = b asset (self s)"
      using b1 sum by arith
  qed
  show ?thesis
    unfolding Let_def
    using sum ev st bal cf d1 d2 d3
    unfolding A_def fa_def pa_def asset_def prov_def coll_def b_def
    by blast
qed

theorem releaseToProvider_fee_split_witness:
  "\<exists>s'. releaseToProvider acceptAll (example_world FUNDED) 1 0
           = Inr ([EscrowReleased 0 2 975000 25000], s')
      \<and> status (escrows s' 0) = RELEASED
      \<and> balances s' 0 2 = 975000 \<and> balances s' 0 4 = 25000 \<and> balances s' 0 9 = 0
      \<and> collectedFees s' 0 = 25000"
proof -
  have "\<exists>evs s'. releaseToProvider (plain (\<lambda>asset callee v s. True)) (example_world FUNDED) 1 0
          = Inr (evs, s')"
    by (simp add: example_world_def releaseToProvider_def contract_defs plain_def
        UINT256_MAX_def FEE_DENOMINATOR_def moveFunds_def)
  then obtain evs s' where
    r: "releaseToProvider (plain (\<lambda>asset callee v s. True)) (example_world FUNDED) 1 0
          = Inr (evs, s')"
    by blast
  have f: "status (escrows (example_world FUNDED) 0) = FUNDED"
    by (simp add: example_world_def)
  show ?thesis
    using releaseToProvider_fee_split [OF f r] r
    by (simp add: acceptAll_def example_world_def Let_def moveFunds_def)
qed

subsection \<open>Refund\<close>

text \<open>
  What a refund does for an authorized arbitrator, in a call of its own on a record that
  exists, when the recipient's code only accepts or refuses.
\<close>

lemma refund_plain:
  assumes "\<not> guardEntered s" and "escrowExists s escrowId"
    and "onlyArbitrator s msg_sender escrowId"
  shows "refundToClient (plain acc) s msg_sender escrowId =
    (if status (escrows s escrowId) = FUNDED \<or> status (escrows s escrowId) = DISPUTED then
       (let paid = (setStatus (s\<lparr>guardEntered := True\<rparr>) escrowId REFUNDED)
                     \<lparr>balances := moveFunds (balances s) (token (escrows s escrowId)) (self s)
                        (client (escrows s escrowId)) (amount (escrows s escrowId))\<rparr>
        in if amount (escrows s escrowId) \<le> balances s (token (escrows s escrowId)) (self s)
              \<and> acc (token (escrows s escrowId)) (client (escrows s escrowId))
                    (amount (escrows s escrowId)) paid
           then Inr ([EscrowRefunded escrowId (client (escrows s escrowId))
                        (amount (escrows s escrowId))],
                     paid\<lparr>guardEntered := False\<rparr>)
           else Inl (if token (escrows s escrowId) = 0 then RefundTransferFailed
                     else SafeERC20FailedOperation))
     else Inl InvalidStatusForRefund)"
  using assms
  by (auto simp add: refundToClient_def contract_defs plain_def Let_def)

text \<open>
  Claim C5. For a record that is FUNDED or DISPUTED, a refund by an authorized arbitrator
  sets the status REFUNDED and moves exactly the record's amount from the contract to the
  client: no fee is taken (the fee counters stay as they are, and a client that is not
  the contract itself ends with exactly the amount more). The refund goes through
  whenever the contract holds the amount and the client accepts the payment; a transfer
  that fails reverts the whole call with a transfer error. From every other status the
  refund reverts with "Invalid status for refund".
\<close>

theorem refundToClient_full_amount:
  assumes "\<not> guardEntered s" and "escrowExists s escrowId"
    and "onlyArbitrator s msg_sender escrowId"
  shows "(status (escrows s escrowId) = FUNDED \<or> status (escrows s escrowId) = DISPUTED \<longrightarrow>
           (case refundToClient (plain acc) s msg_sender escrowId of
              Inr (evs, s') \<Rightarrow>
                 status (escrows s' escrowId) = REFUNDED
               \<and> evs = [EscrowRefunded escrowId (client (escrows s escrowId))
                          (amount (escrows s escrowId))]
               \<and> balances s' = moveFunds (balances s) (token (escrows s escrowId)) (self s)
                                  (client (escrows s escrowId)) (amount (escrows s escrowId))
               \<and> collectedFees s' = collectedFees s
               \<and> (client (escrows s escrowId) \<noteq> self s \<longrightarrow>
                    balances s' (token (escrows s escrowId)) (client (escrows s escrowId))
                      = balances s (token (escrows s escrowId)) (client (escrows s escrowId))
                        + amount (escrows s escrowId)
                  \<and> balances s' (token (escrows s escrowId)) (self s)
                        + amount (escrows s escrowId)
                      = balances s (token (escrows s escrowId)) (self s))
            | Inl e \<Rightarrow> e = RefundTransferFailed \<or> e = SafeERC20FailedOperation))
       \<and> (amount (escrows s escrowId) \<le> balances s (token (escrows s escrowId)) (self s)
            \<and> (status (escrows s escrowId) = FUNDED \<or> status (escrows s escrowId) = DISPUTED) \<longrightarrow>
            (\<exists>r. refundToClient acceptAll s msg_sender escrowId = Inr r))
       \<and> (status (escrows s escrowId) \<noteq> FUNDED \<and> status (escrows s escrowId) \<noteq> DISPUTED \<longrightarrow>
            refundToClient (plain acc) s msg_sender escrowId = Inl InvalidStatusForRefund)"
  unfolding acceptAll_def refund_plain [OF assms]
  by (auto simp add: Let_def setStatus_def moveFunds_def)

theorem refundToClient_full_amount_witness:
  "(\<exists>s'. refundToClient acceptAll (example_world FUNDED) 3 0
            = Inr ([EscrowRefunded 0 1 1000000], s')
        \<and> status (escrows s' 0) = REFUNDED \<and> balances s' 0 1 = 6000000
        \<and> balances s' 0 9 = 0 \<and> collectedFees s' 0 = 0)
   \<and> (\<exists>s'. refundToClient acceptAll (example_world DISPUTED) 3 0
            = Inr ([EscrowRefunded 0 1 1000000], s')
        \<and> status (escrows s' 0) = REFUNDED \<and> balances s' 0 1 = 6000000)
   \<and> refundToClient acceptAll (example_world CREATED) 3 0 = Inl InvalidStatusForRefund
   \<and> refundToClient acceptAll (example_world REFUNDED) 3 0 = Inl InvalidStatusForRefund"
  using refundToClient_full_amount [of "example_world FUNDED" 0 3 "\<lambda>asset callee v s. True"]
    refundToClient_full_amount [of "example_world DISPUTED" 0 3 "\<lambda>asset callee v s. True"]
    refundToClient_full_amount [of "example_world CREATED" 0 3 "\<lambda>asset callee v s. True"]
    refundToClient_full_amount [of "example_world REFUNDED" 0 3 "\<lambda>asset callee v s. True"]
  by (auto simp add: acceptAll_def example_world_def escrowExists_def onlyArbitrator_def
      moveFunds_def split: sum.splits)

subsection \<open>Terminal records\<close>



subsection \<open>Order of effects and interactions in a release\<close>

lemma release_of_released_fails:
  assumes "status (escrows w escrowId) = RELEASED"
  shows "releaseToProvider ext w caller escrowId =
           Inl (if guardEntered w then ReentrancyGuardReentrantCall
                else if escrowExists w escrowId then InvalidEscrowStatus
                else EscrowDoesNotExist)"
  using assms by (simp add: releaseToProvider_def contract_defs)

lemma transferOut_whileReleased:
  assumes "status (escrows w escrowId) = RELEASED"
  shows "transferOut (whileReleased escrowId ext) w asset payee v = transferOut ext w asset payee v"
  using assms by (simp add: transferOut_def whileReleased_def)

lemma transferOut_keeps_released:
  assumes keeps: "\<And>asset callee v w w'. status (escrows w escrowId) = RELEASED \<Longrightarrow>
              ext asset callee v w = Some w' \<Longrightarrow> status (escrows w' escrowId) = RELEASED"
    and "status (escrows w escrowId) = RELEASED"
    and "transferOut ext w asset payee v = Some w'"
  shows "status (escrows w' escrowId) = RELEASED"
proof -
  from assms(3) have
    "ext asset payee v (w\<lparr>balances := moveFunds (balances w) asset (self w) payee v\<rparr>) = Some w'"
    by (simp add: transferOut_def split: if_splits)
  moreover have "status (escrows (w\<lparr>balances := moveFunds (balances w) asset (self w) payee v\<rparr>)
      escrowId) = RELEASED"
    using assms(2) by simp
  ultimately show ?thesis using keeps by blast
qed

text \<open>
  Claim C6. \<open>releaseToProvider\<close> writes the status RELEASED before it makes any external
  call: replacing the outside world by one in which every external call that starts while
  the record is not RELEASED fails does not change the outcome of a release, so no such
  call is made. The external code is arbitrary (it may call back into the contract) apart
  from what no call into the contract can do, turning a RELEASED record into something
  else. And whenever the record is RELEASED, a release of it reverts, whoever calls it and
  from wherever: the external code that runs during a release cannot release again.
\<close>

theorem release_effects_before_interactions:
  assumes keeps: "\<And>asset callee v w w'. status (escrows w escrowId) = RELEASED \<Longrightarrow>
              ext asset callee v w = Some w' \<Longrightarrow> status (escrows w' escrowId) = RELEASED"
  shows "releaseToProvider (whileReleased escrowId ext) s msg_sender escrowId
           = releaseToProvider ext s msg_sender escrowId
       \<and> (\<forall>w ext' caller. status (escrows w escrowId) = RELEASED \<longrightarrow>
             (\<exists>e. releaseToProvider ext' w caller escrowId = Inl e))"
proof
  let ?s1 = "setStatus (s\<lparr>guardEntered := True\<rparr>) escrowId RELEASED"
  have s1: "status (escrows ?s1 escrowId) = RELEASED"
    by (simp add: setStatus_def)
  note first = transferOut_whileReleased [OF s1]
  have second: "transferOut (whileReleased escrowId ext) w2 asset payee v
                  = transferOut ext w2 asset payee v"
    if "transferOut ext ?s1 asset1 payee1 v1 = Some w2" for w2 asset payee v asset1 payee1 v1
    using transferOut_whileReleased [OF transferOut_keeps_released [OF keeps s1 that]] .
  show "releaseToProvider (whileReleased escrowId ext) s msg_sender escrowId
           = releaseToProvider ext s msg_sender escrowId"
    unfolding releaseToProvider_def nonReentrant_def Let_def first
    by (auto simp add: second split: option.splits sum.splits)
next
  show "\<forall>w ext' caller. status (escrows w escrowId) = RELEASED \<longrightarrow>
             (\<exists>e. releaseToProvider ext' w caller escrowId = Inl e)"
    by (simp add: release_of_released_fails)
qed

theorem release_effects_before_interactions_witness:
  "releaseToProvider (whileReleased 0 reentrantProvider) attacked_world 2 0
     = releaseToProvider reentrantProvider attacked_world 2 0
   \<and> (\<exists>s'. releaseToProvider reentrantProvider attacked_world 2 0
              = Inr ([EscrowReleased 0 2 975000 25000], s')
          \<and> status (escrows s' 0) = RELEASED
          \<and> balances s' 0 2 = 975000 \<and> balances s' 0 4 = 25000
          \<and> balances s' 0 9 = 2000000)
   \<and> (\<exists>e. releaseToProvider reentrantProvider (example_world RELEASED) 2 0 = Inl e)"
proof -
  have keeps: "status (escrows w' 0) = RELEASED"
    if "status (escrows w 0) = RELEASED" and "reentrantProvider asset callee v w = Some w'"
    for asset callee v w w'
    using that by (simp add: reentrantProvider_def release_of_released_fails)
  have run: "\<exists>s'. releaseToProvider reentrantProvider attacked_world 2 0
              = Inr ([EscrowReleased 0 2 975000 25000], s')
          \<and> status (escrows s' 0) = RELEASED
          \<and> balances s' 0 2 = 975000 \<and> balances s' 0 4 = 25000
          \<and> balances s' 0 9 = 2000000"
    by (simp add: attacked_world_def example_world_def reentrantProvider_def
        releaseToProvider_def contract_defs UINT256_MAX_def FEE_DENOMINATOR_def moveFunds_def)
  have st: "status (escrows (example_world RELEASED) 0) = RELEASED"
    by (simp add: example_world_def)
  have main: "releaseToProvider (whileReleased 0 reentrantProvider) attacked_world 2 0
           = releaseToProvider reentrantProvider attacked_world 2 0
       \<and> (\<forall>w ext' caller. status (escrows w 0) = RELEASED \<longrightarrow>
             (\<exists>e. releaseToProvider ext' w caller 0 = Inl e))"
    by (rule release_effects_before_interactions, rule keeps, assumption+)
  show ?thesis
    using main run st by blast
qed

subsection \<open>Dispute resolution\<close>

lemma refund_plain_success:
  assumes "refundToClient (plain acc) s msg_sender escrowId = Inr (evs, s')"
  shows "evs = [EscrowRefunded escrowId (client (escrows s escrowId))
                  (amount (escrows s escrowId))] \<and>
    s' = s\<lparr>escrows := (escrows s)(escrowId := (escrows s escrowId)\<lparr>status := REFUNDED\<rparr>),
          balances := moveFunds (balances s) (token (escrows s escrowId)) (self s)
            (client (escrows s escrowId)) (amount (escrows s escrowId))\<rparr>"
  using assms
  unfolding refundToClient_def nonReentrant_def escrowExists_def onlyArbitrator_def
    setStatus_def transferOut_def plain_def Let_def
  by (auto split: if_splits option.splits sum.splits)

text \<open>
  Claim C3. For a record that exists and is DISPUTED, and a caller that is an authorized
  arbitrator: \<open>resolveDispute(id, true)\<close> is \<open>refundToClient(id)\<close> on the same world,
  with the resolution event in front (same revert, or same world left). And
  \<open>resolveDispute(id, false)\<close> is the release of the record: what
  \<open>releaseToProvider(id)\<close> does with the record's status back at FUNDED, the one status
  a release starts from (on the record while it is DISPUTED it reverts), again with the
  resolution event in front. With recipients that only accept or refuse, the first
  leaves the record REFUNDED, the full amount with the client and the fee counters
  untouched; the second leaves it RELEASED, with the fee taken and counted.
\<close>

theorem resolveDispute_delegates:
  assumes "escrowExists s escrowId"
    and "status (escrows s escrowId) = DISPUTED"
    and "onlyArbitrator s msg_sender escrowId"
  shows "resolveDispute ext s msg_sender escrowId True =
           (case refundToClient ext s msg_sender escrowId of
              Inl e \<Rightarrow> Inl e
            | Inr (evs, s') \<Rightarrow> Inr (DisputeResolved escrowId msg_sender True # evs, s'))
       \<and> world_after s (resolveDispute ext s msg_sender escrowId True)
           = world_after s (refundToClient ext s msg_sender escrowId)
       \<and> resolveDispute ext s msg_sender escrowId False =
           (case releaseToProvider ext (setStatus s escrowId FUNDED) msg_sender escrowId of
              Inl e \<Rightarrow> Inl e
            | Inr (evs, s') \<Rightarrow> Inr (DisputeResolved escrowId msg_sender False # evs, s'))
       \<and> (\<exists>e. releaseToProvider ext s msg_sender escrowId = Inl e)
       \<and> (\<forall>evs s'. resolveDispute (plain acc) s msg_sender escrowId True = Inr (evs, s') \<longrightarrow>
              status (escrows s' escrowId) = REFUNDED
            \<and> collectedFees s' = collectedFees s
            \<and> balances s' = moveFunds (balances s) (token (escrows s escrowId)) (self s)
                               (client (escrows s escrowId)) (amount (escrows s escrowId)))
       \<and> (\<forall>evs s'. resolveDispute (plain acc) s msg_sender escrowId False = Inr (evs, s') \<longrightarrow>
              status (escrows s' escrowId) = RELEASED
            \<and> collectedFees s' (token (escrows s escrowId))
                = collectedFees s (token (escrows s escrowId))
                  + amount (escrows s escrowId) * fee (escrows s escrowId) div 10000
            \<and> balances s' =
                moveFunds
                  (moveFunds (balances s) (token (escrows s escrowId)) (self s)
                     (provider (escrows s escrowId))
                     (amount (escrows s escrowId)
                        - amount (escrows s escrowId) * fee (escrows s escrowId) div 10000))
                  (token (escrows s escrowId)) (self s) (feeCollector s)
                  (amount (escrows s escrowId) * fee (escrows s escrowId) div 10000))"
proof -
  have refund: "resolveDispute ext s msg_sender escrowId True =
           (case refundToClient ext s msg_sender escrowId of
              Inl e \<Rightarrow> Inl e
            | Inr (evs, s') \<Rightarrow> Inr (DisputeResolved escrowId msg_sender True # evs, s'))"
    for ext
    using assms by (simp add: resolveDispute_def inStatus_def)
  have release: "resolveDispute ext s msg_sender escrowId False =
           (case releaseToProvider ext (setStatus s escrowId FUNDED) msg_sender escrowId of
              Inl e \<Rightarrow> Inl e
            | Inr (evs, s') \<Rightarrow> Inr (DisputeResolved escrowId msg_sender False # evs, s'))"
    for ext
    using assms by (simp add: resolveDispute_def inStatus_def)
  have same: "world_after s (resolveDispute ext s msg_sender escrowId True)
           = world_after s (refundToClient ext s msg_sender escrowId)"
    by (simp add: refund world_after_def split: sum.splits)
  have direct: "\<exists>e. releaseToProvider ext s msg_sender escrowId = Inl e"
    using assms by (simp add: releaseToProvider_def contract_defs)
  have refunded: "status (escrows s' escrowId) = REFUNDED
            \<and> collectedFees s' = collectedFees s
            \<and> balances s' = moveFunds (balances s) (token (escrows s escrowId)) (self s)
                               (client (escrows s escrowId)) (amount (escrows s escrowId))"
    if "resolveDispute (plain acc) s msg_sender escrowId True = Inr (evs, s')" for evs s'
  proof -
    from that obtain evs0 where
      "refundToClient (plain acc) s msg_sender escrowId = Inr (evs0, s')"
      by (auto simp add: refund split: sum.splits)
    from refund_plain_success [OF this] show ?thesis by simp
  qed
  have released: "status (escrows s' escrowId) = RELEASED
            \<and> collectedFees s' (token (escrows s escrowId))
                = collectedFees s (token (escrows s escrowId))
                  + amount (escrows s escrowId) * fee (escrows s escrowId) div 10000
            \<and> balances s' =
                moveFunds
                  (moveFunds (balances s) (token (escrows s escrowId)) (self s)
                     (provider (escrows s escrowId))
                     (amount (escrows s escrowId)
                        - amount (escrows s escrowId) * fee (escrows s escrowId) div 10000))
                  (token (escrows s escrowId)) (self s) (feeCollector s)
                  (amount (escrows s escrowId) * fee (escrows s escrowId) div 10000)"
    if "resolveDispute (plain acc) s msg_sender escrowId False = Inr (evs, s')" for evs s'
  proof -
    from that obtain evs0 where
      "releaseToProvider (plain acc) (setStatus s escrowId FUNDED) msg_sender escrowId
         = Inr (evs0, s')"
      by (auto simp add: release split: sum.splits)
    from release_plain_success [OF this] show ?thesis
      by (simp add: setStatus_def FEE_DENOMINATOR_def)
  qed
  show ?thesis
    using refund release same direct refunded released by blast
qed

theorem resolveDispute_delegates_witness:
  "world_after (example_world DISPUTED) (resolveDispute acceptAll (example_world DISPUTED) 3 0 True)
     = world_after (example_world DISPUTED) (refundToClient acceptAll (example_world DISPUTED) 3 0)
   \<and> (\<exists>s'. resolveDispute acceptAll (example_world DISPUTED) 3 0 True
              = Inr ([DisputeResolved 0 3 True, EscrowRefunded 0 1 1000000], s')
          \<and> status (escrows s' 0) = REFUNDED \<and> balances s' 0 1 = 6000000
          \<and> collectedFees s' 0 = 0)
   \<and> (\<exists>s'. resolveDispute acceptAll (example_world DISPUTED) 3 0 False
              = Inr ([DisputeResolved 0 3 False, EscrowReleased 0 2 975000 25000], s')
          \<and> releaseToProvider acceptAll (example_world FUNDED) 3 0
              = Inr ([EscrowReleased 0 2 975000 25000], s')
          \<and> status (escrows s' 0) = RELEASED \<and> balances s' 0 2 = 975000
          \<and> balances s' 0 4 = 25000 \<and> collectedFees s' 0 = 25000)"
proof -
  have e: "escrowExists (example_world DISPUTED) 0"
    and d: "status (escrows (example_world DISPUTED) 0) = DISPUTED"
    and a: "onlyArbitrator (example_world DISPUTED) 3 0"
    by (simp_all add: example_world_def escrowExists_def onlyArbitrator_def)
  have f: "setStatus (example_world DISPUTED) 0 FUNDED = example_world FUNDED"
    by (simp add: example_world_def setStatus_def)
  have refund: "refundToClient acceptAll (example_world DISPUTED) 3 0
      = Inr ([EscrowRefunded 0 1 1000000],
             (example_world REFUNDED)\<lparr>balances := (balances (example_world REFUNDED))
                (0 := (balances (example_world REFUNDED) 0)(9 := 0, 1 := 6000000))\<rparr>)"
    by (simp add: refundToClient_def contract_defs example_world_def acceptAll_def plain_def
        moveFunds_def)
  have release: "\<exists>s'. releaseToProvider acceptAll (example_world FUNDED) 3 0
              = Inr ([EscrowReleased 0 2 975000 25000], s')
          \<and> status (escrows s' 0) = RELEASED \<and> balances s' 0 2 = 975000
          \<and> balances s' 0 4 = 25000 \<and> collectedFees s' 0 = 25000"
    by (simp add: releaseToProvider_def contract_defs example_world_def acceptAll_def plain_def
        UINT256_MAX_def FEE_DENOMINATOR_def moveFunds_def)
  note t = resolveDispute_delegates [OF e d a, of acceptAll "\<lambda>asset callee v s. True",
      unfolded f]
  from t have same: "world_after (example_world DISPUTED)
        (resolveDispute acceptAll (example_world DISPUTED) 3 0 True)
     = world_after (example_world DISPUTED)
        (refundToClient acceptAll (example_world DISPUTED) 3 0)"
    by blast
  from t have r1: "resolveDispute acceptAll (example_world DISPUTED) 3 0 True =
           (case refundToClient acceptAll (example_world DISPUTED) 3 0 of
              Inl e \<Rightarrow> Inl e
            | Inr (evs, s') \<Rightarrow> Inr (DisputeResolved 0 3 True # evs, s'))"
    by blast
  from t have r2: "resolveDispute acceptAll (example_world DISPUTED) 3 0 False =
           (case releaseToProvider acceptAll (example_world FUNDED) 3 0 of
              Inl e \<Rightarrow> Inl e
            | Inr (evs, s') \<Rightarrow> Inr (DisputeResolved 0 3 False # evs, s'))"
    by blast
  have c2: "\<exists>s'. resolveDispute acceptAll (example_world DISPUTED) 3 0 True
              = Inr ([DisputeResolved 0 3 True, EscrowRefunded 0 1 1000000], s')
          \<and> status (escrows s' 0) = REFUNDED \<and> balances s' 0 1 = 6000000
          \<and> collectedFees s' 0 = 0"
    by (simp add: r1 refund) (simp add: example_world_def)
  have c3: "\<exists>s'. resolveDispute acceptAll (example_world DISPUTED) 3 0 False
              = Inr ([DisputeResolved 0 3 False, EscrowReleased 0 2 975000 25000], s')
          \<and> releaseToProvider acceptAll (example_world FUNDED) 3 0
              = Inr ([EscrowReleased 0 2 975000 25000], s')
          \<and> status (escrows s' 0) = RELEASED \<and> balances s' 0 2 = 975000
          \<and> balances s' 0 4 = 25000 \<and> collectedFees s' 0 = 25000"
    using release by (auto simp add: r2)
  show ?thesis using same c2 c3 by blast
qed

section \<open>Properties of the indexer\<close>

lemma toString_examples:
  "toString 1000000 = ''1000000''" "toString 250 = ''250''"
  by (simp_all add: toString.simps)

lemmas example_indexer_defs =
  example_created_def example_funded_def example_chain_def example_service_def
  example_listener_def example_row_def example_world_def toString_examples

lemmas indexer_defs =
  syncChainEvents_def getContract_def getBlockNumber_def queryFilter_def
  handleEscrowCreated_def handleEscrowFunded_def findOne_def saveNew_def saveLoaded_def
  freshId_def blockchain_getEscrow_def getEscrow_def escrowExists_def storable_def
  newDate_def

subsection \<open>Creation events\<close>

lemma find_append_absent:
  assumes "find P xs = None"
  shows "find P (xs @ ys) = find P ys"
  using assms by (induction xs) (auto split: if_splits)

lemma filter_absent:
  assumes "find P xs = None"
  shows "filter P xs = []"
  using assms by (induction xs) (auto split: if_splits)

text \<open>
  When the listener handles a creation event for a \<open>(chain, id)\<close> that the replica does
  not hold, on a connected chain on which the record exists, all turns on whether the
  database takes the row: with a deadline of at most \<open>8640000000000\<close> seconds and a
  description free of the character of code \<open>0\<close> one row is inserted; with a later
  deadline \<open>save\<close> throws and nothing is inserted.
\<close>

lemma handleEscrowCreated_inserts:
  assumes "args event_arg = EscrowCreated i c p t a d"
    and "findOne (escrowRepository st) chainId_arg i = None"
    and "chains bs chainId_arg = Some ch"
    and "escrowExists (contractState ch) i"
    and "d \<le> 8640000000000"
    and "CHR 0x00 \<notin> set (description (escrows (contractState ch) i))"
  shows "\<exists>r. handleEscrowCreated bs chainId_arg st event_arg
               = Inr (st\<lparr>escrowRepository := escrowRepository st @ [r]\<rparr>)
           \<and> chainId_col r = chainId_arg \<and> escrowId_col r = i
           \<and> status_col r = statusNumber (status (escrows (contractState ch) i))"
  using assms
  by (auto simp add: handleEscrowCreated_def saveNew_def blockchain_getEscrow_def
      getContract_def getEscrow_def storable_def newDate_def)

lemma handleEscrowCreated_invalid_date:
  assumes "args event_arg = EscrowCreated i c p t a d"
    and "findOne (escrowRepository st) chainId_arg i = None"
    and "chains bs chainId_arg = Some ch"
    and "escrowExists (contractState ch) i"
    and "d > 8640000000000"
  shows "handleEscrowCreated bs chainId_arg st event_arg = Inl QueryFailed"
  using assms
  by (simp add: handleEscrowCreated_def saveNew_def blockchain_getEscrow_def
      getContract_def getEscrow_def storable_def newDate_def)

text \<open>
  For an event whose row the database takes, handling it twice is handling it once: the
  second handling (whatever the chain then answers) finds the row and changes nothing,
  and the replica holds exactly one record for \<open>(chain, id)\<close>.
\<close>

lemma handleEscrowCreated_idempotent:
  assumes "args event_arg = EscrowCreated i c p t a d"
    and "findOne (escrowRepository st) chainId_arg i = None"
    and "chains bs chainId_arg = Some ch"
    and "escrowExists (contractState ch) i"
    and "d \<le> 8640000000000"
    and "CHR 0x00 \<notin> set (description (escrows (contractState ch) i))"
  shows "\<exists>st1. handleEscrowCreated bs chainId_arg st event_arg = Inr st1
           \<and> handleEscrowCreated bs' chainId_arg st1 event_arg = Inr st1
           \<and> forEach (handleEscrowCreated bs chainId_arg) [event_arg, event_arg] st
               = (st1, None)
           \<and> length (filter (\<lambda>r. chainId_col r = chainId_arg \<and> escrowId_col r = i)
                       (escrowRepository st1)) = 1
           \<and> length (escrowRepository st1) = Suc (length (escrowRepository st))"
proof -
  from handleEscrowCreated_inserts [OF assms] obtain r where
    first: "handleEscrowCreated bs chainId_arg st event_arg
              = Inr (st\<lparr>escrowRepository := escrowRepository st @ [r]\<rparr>)"
    and key: "chainId_col r = chainId_arg \<and> escrowId_col r = i"
    by blast
  define st1 where "st1 = st\<lparr>escrowRepository := escrowRepository st @ [r]\<rparr>"
  have rows: "escrowRepository st1 = escrowRepository st @ [r]"
    by (simp add: st1_def)
  from assms(2) have absent:
    "find (\<lambda>r. chainId_col r = chainId_arg \<and> escrowId_col r = i) (escrowRepository st) = None"
    by (simp add: findOne_def)
  have present: "findOne (escrowRepository st1) chainId_arg i = Some r"
    using key by (simp add: findOne_def rows find_append_absent [OF absent])
  have again: "handleEscrowCreated bs' chainId_arg st1 event_arg = Inr st1" for bs'
    by (simp add: handleEscrowCreated_def assms(1) present)
  have twice: "forEach (handleEscrowCreated bs chainId_arg) [event_arg, event_arg] st
      = (st1, None)"
    by (simp add: first [folded st1_def] again)
  have one: "length (filter (\<lambda>r. chainId_col r = chainId_arg \<and> escrowId_col r = i)
                   (escrowRepository st1)) = 1"
    using key by (simp add: rows filter_absent [OF absent])
  have more: "length (escrowRepository st1) = Suc (length (escrowRepository st))"
    by (simp add: rows)
  show ?thesis
    using first [folded st1_def] again twice one more by blast
qed

lemma handleEscrowCreated_idempotent_example:
  "\<exists>st1. handleEscrowCreated example_service 1 (example_listener 0) example_created = Inr st1
      \<and> handleEscrowCreated example_service 1 st1 example_created = Inr st1
      \<and> forEach (handleEscrowCreated example_service 1) [example_created, example_created]
           (example_listener 0) = (st1, None)
      \<and> escrowRepository st1 = [example_row 1]"
proof -
  have first: "handleEscrowCreated example_service 1 (example_listener 0) example_created
      = Inr ((example_listener 0)\<lparr>escrowRepository := [example_row 1]\<rparr>)"
    by (simp add: indexer_defs example_indexer_defs)
  have a: "args example_created = EscrowCreated 0 1 2 0 1000000 0"
    by (simp add: example_created_def)
  have n: "findOne (escrowRepository (example_listener 0)) 1 0 = None"
    by (simp add: example_listener_def findOne_def)
  have c: "chains example_service 1 = Some example_chain"
    by (simp add: example_service_def)
  have x: "escrowExists (contractState example_chain) 0"
    by (simp add: example_chain_def example_world_def escrowExists_def)
  have z: "CHR 0x00 \<notin> set (description (escrows (contractState example_chain) 0))"
    by (simp add: example_chain_def example_world_def)
  show ?thesis
    using handleEscrowCreated_idempotent [OF a n c x _ z, of example_service] first
    by auto
qed

text \<open>
  Claim C8 says that a creation event handled twice, from a replica without the record,
  leaves exactly one record for its \<open>(chain, id)\<close>. The code falls short of it for a
  creation event the contract can emit: client \<open>1\<close> creates record \<open>1\<close> with the deadline
  \<open>8640000000001\<close>, which the contract accepts as it lies in the future; the replica
  does not hold the record and the chain answers the read of it; and yet the handler
  throws in \<open>save\<close>, on the first delivery and on the second, the replica holds no record
  for \<open>(1, 1)\<close>, and the poll cycle ends in the error with its cursor where it was.
\<close>

theorem handleEscrowCreated_far_deadline_throws:
  "createEscrow (example_world CREATED) 1 0 2 0 0 1000000 8640000000001 ''x''
     = Inr (1, [args far_created], far_world)
   \<and> findOne (escrowRepository (example_listener 0)) 1 1 = None
   \<and> blockchain_getEscrow far_service 1 1 = Inr (escrows far_world 1)
   \<and> handleEscrowCreated far_service 1 (example_listener 0) far_created = Inl QueryFailed
   \<and> forEach (handleEscrowCreated far_service 1) [far_created, far_created]
        (example_listener 0) = (example_listener 0, Some QueryFailed)
   \<and> escrowRepository (example_listener 0) = []
   \<and> syncChainEvents far_service (example_listener 0) 1
        = (example_listener 0, Some QueryFailed)"
proof -
  have create: "createEscrow (example_world CREATED) 1 0 2 0 0 1000000 8640000000001 ''x''
     = Inr (1, [args far_created], far_world)"
    by (simp add: createEscrow_def example_world_def far_world_def far_created_def
        UINT256_MAX_def)
  have absent: "findOne (escrowRepository (example_listener 0)) 1 1 = None"
    by (simp add: example_listener_def findOne_def)
  have read: "blockchain_getEscrow far_service 1 1 = Inr (escrows far_world 1)"
    by (simp add: blockchain_getEscrow_def getContract_def getEscrow_def escrowExists_def
        far_service_def far_world_def)
  have throws: "handleEscrowCreated far_service 1 (example_listener 0) far_created
      = Inl QueryFailed"
    by (simp add: indexer_defs far_service_def far_world_def far_created_def
        example_listener_def example_world_def)
  have twice: "forEach (handleEscrowCreated far_service 1) [far_created, far_created]
        (example_listener 0) = (example_listener 0, Some QueryFailed)"
    using throws by simp
  have empty: "escrowRepository (example_listener 0) = []"
    by (simp add: example_listener_def)
  have cycle: "syncChainEvents far_service (example_listener 0) 1
        = (example_listener 0, Some QueryFailed)"
    by (simp add: indexer_defs far_service_def far_world_def far_created_def
        example_listener_def example_world_def)
  show ?thesis
    using create absent read throws twice empty cycle by blast
qed

subsection \<open>Funded events\<close>

lemma find_saveLoaded:
  assumes "find P rows = Some r" and "P r'" and "id_col r' = id_col r"
  shows "find P (saveLoaded rows r') = Some r'"
  using assms
  by (induction rows) (auto simp add: saveLoaded_def split: if_splits)

text \<open>
  Claim C10. For a funded event whose \<open>(chain, id)\<close> has a record in the replica, the
  funded handler writes that record back with status \<open>1\<close> (FUNDED) whatever its status
  was: the hypothesis says nothing of the record's status, so a funded event delivered
  after the replica has moved on (to RELEASED, REFUNDED, DISPUTED) puts it back to FUNDED.
\<close>

theorem handleEscrowFunded_overwrites_status:
  assumes "args event_arg = EscrowFunded i f a"
    and "findOne (escrowRepository st) chainId_arg i = Some r"
  shows "\<exists>st'. handleEscrowFunded chainId_arg st event_arg = Inr st'
           \<and> findOne (escrowRepository st') chainId_arg i = Some (r\<lparr>status_col := 1\<rparr>)
           \<and> escrowRepository st' = saveLoaded (escrowRepository st) (r\<lparr>status_col := 1\<rparr>)
           \<and> statusNumber FUNDED = 1"
proof -
  from assms(2) have key: "chainId_col r = chainId_arg \<and> escrowId_col r = i"
    by (auto simp add: findOne_def dest: find_Some_iff [THEN iffD1])
  have "findOne (saveLoaded (escrowRepository st) (r\<lparr>status_col := 1\<rparr>)) chainId_arg i
      = Some (r\<lparr>status_col := 1\<rparr>)"
    unfolding findOne_def
    by (rule find_saveLoaded [OF assms(2) [unfolded findOne_def]]) (simp_all add: key)
  then show ?thesis
    by (simp add: handleEscrowFunded_def assms)
qed

theorem handleEscrowFunded_overwrites_status_witness:
  "\<exists>st'. handleEscrowFunded 1
            \<lparr>lastSyncedBlocks = [1 \<mapsto> 4], escrowRepository = [example_row 3]\<rparr> example_funded
          = Inr st'
      \<and> escrowRepository st' = [example_row 1]
      \<and> statusNumber RELEASED = 3 \<and> statusNumber FUNDED = 1"
  using handleEscrowFunded_overwrites_status [of example_funded 0 1 1000000
      "\<lparr>lastSyncedBlocks = [1 \<mapsto> 4], escrowRepository = [example_row 3]\<rparr>" 1 "example_row 3"]
  by (auto simp add: example_funded_def example_row_def findOne_def saveLoaded_def)

text \<open>
  Claim C7, as the code has it. For a funded event whose \<open>(chain, id)\<close> has no record in
  the replica, the funded handler does nothing: it neither fails nor reads the chain nor
  inserts a record, and the listener is left as it was.
\<close>

theorem handleEscrowFunded_absent_record_skipped:
  assumes "args event_arg = EscrowFunded i f a"
    and "findOne (escrowRepository st) chainId_arg i = None"
  shows "handleEscrowFunded chainId_arg st event_arg = Inr st
       \<and> forEach (handleEscrowFunded chainId_arg) [event_arg] st = (st, None)"
  using assms by (simp add: handleEscrowFunded_def)

theorem handleEscrowFunded_absent_record_skipped_witness:
  "handleEscrowFunded 1 (example_listener 4) example_funded = Inr (example_listener 4)
   \<and> escrowRepository (example_listener 4) = []"
  using handleEscrowFunded_absent_record_skipped [of example_funded 0 1 1000000
      "example_listener 4" 1]
  by (simp add: example_funded_def example_listener_def findOne_def)

text \<open>
  The claim as stated fails: the listener of the example, at cursor \<open>4\<close>, has missed the
  creation of record \<open>0\<close> in block \<open>3\<close>; the cycle fetches the funded event of block \<open>5\<close>,
  the chain would answer a read of the record, and yet the replica is empty after the
  cycle.
\<close>

theorem funded_event_without_record_counterexample:
  "findOne (escrowRepository (example_listener 4)) 1 0 = None
   \<and> queryFilter example_chain isEscrowFunded 4 6 = [example_funded]
   \<and> blockchain_getEscrow example_service 1 0 = Inr (escrows (example_world FUNDED) 0)
   \<and> syncChainEvents example_service (example_listener 4) 1
       = (\<lparr>lastSyncedBlocks = [1 \<mapsto> 6], escrowRepository = []\<rparr>, None)"
  by (simp add: indexer_defs example_indexer_defs)

subsection \<open>The poll cycle\<close>

text \<open>
  Claim C9, as the code has it. In a poll cycle of a connected chain, with \<open>cursor\<close> the
  last synced block of the chain (\<open>0\<close> if none) and \<open>current\<close> the chain's current block
  number: the cycle is a no-op exactly when \<open>cursor + 1 > current\<close>; otherwise the
  creation events and then the funded events of the blocks \<open>cursor \<dots> current\<close>, the
  cursor's own block included, are fetched and applied in that order, and the cursor
  becomes \<open>current\<close> unless a handler threw.
\<close>

theorem syncChainEvents_window:
  assumes "chains bs chainId_arg = Some c"
  shows "let cursor = (case lastSyncedBlocks st chainId_arg of Some b \<Rightarrow> b | None \<Rightarrow> 0);
             current = currentBlockNumber c
         in (syncChainEvents bs st chainId_arg = (st, None) \<longleftrightarrow> cursor + 1 > current)
          \<and> (cursor < current \<longrightarrow>
               syncChainEvents bs st chainId_arg =
                 (case forEach (handleEscrowCreated bs chainId_arg)
                         (filter (\<lambda>l. isEscrowCreated (args l)
                                    \<and> cursor \<le> blockNumber l \<and> blockNumber l \<le> current)
                            (logs c)) st of
                    (st1, Some e) \<Rightarrow> (st1, Some e)
                  | (st1, None) \<Rightarrow>
                      (case forEach (handleEscrowFunded chainId_arg)
                              (filter (\<lambda>l. isEscrowFunded (args l)
                                         \<and> cursor \<le> blockNumber l \<and> blockNumber l \<le> current)
                                 (logs c)) st1 of
                         (st2, Some e) \<Rightarrow> (st2, Some e)
                       | (st2, None) \<Rightarrow>
                           (st2\<lparr>lastSyncedBlocks :=
                              (lastSyncedBlocks st2)(chainId_arg \<mapsto> current)\<rparr>, None))))"
proof -
  define cursor where "cursor = (case lastSyncedBlocks st chainId_arg of Some b \<Rightarrow> b | None \<Rightarrow> 0)"
  define current where "current = currentBlockNumber c"
  define run where "run =
     (case forEach (handleEscrowCreated bs chainId_arg)
             (filter (\<lambda>l. isEscrowCreated (args l)
                        \<and> cursor \<le> blockNumber l \<and> blockNumber l \<le> current)
                (logs c)) st of
        (st1, Some e) \<Rightarrow> (st1, Some e)
      | (st1, None) \<Rightarrow>
          (case forEach (handleEscrowFunded chainId_arg)
                  (filter (\<lambda>l. isEscrowFunded (args l)
                             \<and> cursor \<le> blockNumber l \<and> blockNumber l \<le> current)
                     (logs c)) st1 of
             (st2, Some e) \<Rightarrow> (st2, Some e)
           | (st2, None) \<Rightarrow>
               (st2\<lparr>lastSyncedBlocks :=
                  (lastSyncedBlocks st2)(chainId_arg \<mapsto> current)\<rparr>, None)))"
  have sync: "syncChainEvents bs st chainId_arg = (if cursor \<ge> current then (st, None) else run)"
    unfolding run_def cursor_def current_def
    using assms
    by (simp add: syncChainEvents_def getContract_def getBlockNumber_def queryFilter_def
        Let_def)
  have changed: "run \<noteq> (st, None)" if "cursor < current"
  proof
    assume eq: "run = (st, None)"
    then obtain st2 where
      "st = st2\<lparr>lastSyncedBlocks := (lastSyncedBlocks st2)(chainId_arg \<mapsto> current)\<rparr>"
      by (auto simp add: run_def split: prod.splits option.splits)
    then have "lastSyncedBlocks st chainId_arg = Some current"
      by (metis eventListener.select_convs(1) eventListener.surjective
          eventListener.update_convs(1) fun_upd_same)
    then have "cursor = current" by (simp add: cursor_def)
    with that show False by simp
  qed
  have noop: "syncChainEvents bs st chainId_arg = (st, None) \<longleftrightarrow> cursor + 1 > current"
    using changed by (auto simp add: sync)
  have window: "cursor < current \<longrightarrow> syncChainEvents bs st chainId_arg = run"
    by (simp add: sync)
  show ?thesis
    unfolding Let_def
    using noop window
    unfolding run_def cursor_def current_def
    by blast
qed

theorem syncChainEvents_window_witness:
  "syncChainEvents example_service (example_listener 6) 1 = (example_listener 6, None)
   \<and> syncChainEvents example_service (example_listener 7) 1 = (example_listener 7, None)
   \<and> syncChainEvents example_service (example_listener 5) 1 \<noteq> (example_listener 5, None)
   \<and> syncChainEvents example_service (example_listener 0) 1
       = (\<lparr>lastSyncedBlocks = [1 \<mapsto> 6], escrowRepository = [example_row 1]\<rparr>, None)"
proof -
  have c: "chains example_service 1 = Some example_chain"
    by (simp add: example_service_def)
  have run: "syncChainEvents example_service (example_listener 0) 1
       = (\<lparr>lastSyncedBlocks = [1 \<mapsto> 6], escrowRepository = [example_row 1]\<rparr>, None)"
    by (simp add: indexer_defs example_indexer_defs)
  have n6: "syncChainEvents example_service (example_listener 6) 1 = (example_listener 6, None)"
    using syncChainEvents_window [OF c, of "example_listener 6", unfolded Let_def,
        THEN conjunct1]
    by (simp add: example_listener_def example_chain_def)
  have n7: "syncChainEvents example_service (example_listener 7) 1 = (example_listener 7, None)"
    using syncChainEvents_window [OF c, of "example_listener 7", unfolded Let_def,
        THEN conjunct1]
    by (simp add: example_listener_def example_chain_def)
  have n5: "syncChainEvents example_service (example_listener 5) 1 \<noteq> (example_listener 5, None)"
    using syncChainEvents_window [OF c, of "example_listener 5", unfolded Let_def,
        THEN conjunct1]
    by (simp add: example_listener_def example_chain_def)
  show ?thesis
    using n6 n7 n5 run by blast
qed

text \<open>
  The claim as stated fails in its window: at cursor \<open>3\<close> no creation event lies in the
  blocks \<open>cursor + 1 \<dots> current\<close>, and yet the cycle applies the creation event of block
  \<open>3\<close> and the replica gains the record.
\<close>

theorem syncChainEvents_window_counterexample:
  "lastSyncedBlocks (example_listener 3) 1 = Some 3
   \<and> currentBlockNumber example_chain = 6
   \<and> blockNumber example_created = 3
   \<and> queryFilter example_chain isEscrowCreated (3 + 1) 6 = []
   \<and> syncChainEvents example_service (example_listener 3) 1
       = (\<lparr>lastSyncedBlocks = [1 \<mapsto> 6], escrowRepository = [example_row 1]\<rparr>, None)"
  by (simp add: indexer_defs example_indexer_defs)

end
